theory Spec2Isabelle
  imports Complex_Main
begin

section \<open>Python values that the pipeline handles\<close>

text \<open>
  A float of the source is either the missing-value sentinel or a finite value. Values
  are exact reals: rounding and infinities of IEEE arithmetic are abstracted, the
  propagation of the sentinel and every comparison with it are kept.
\<close>

datatype num = NaN | Val real

text \<open>
  One cell of the timing table \<^verbatim>\<open>timing_data\<close> after the numeric coercion of
  \<^verbatim>\<open>extract_midt_events\<close>: a column named in \<^verbatim>\<open>numeric_columns\<close> holds floats
  (\<^verbatim>\<open>pd.to_numeric(..., errors='coerce')\<close>, so an unreadable field is the sentinel),
  any other column still holds the raw strings of the file.
\<close>

datatype cell = Str string | Num num

datatype exn = IndexError | TypeError | ValueError | FileNotFoundError

text \<open>The table is its list of rows; every row has one cell per header column.\<close>

type_synonym dataframe = "cell list list"

text \<open>\<^verbatim>\<open>timing_data.iloc[i, j]\<close>: positional access, out of range raises.\<close>

definition iloc :: "dataframe \<Rightarrow> nat \<Rightarrow> nat \<Rightarrow> exn + cell" where
  "iloc df i j =
     (if i < length df \<and> j < length (df ! i) then Inr (df ! i ! j) else Inl IndexError)"

text \<open>\<^verbatim>\<open>x / 1000\<close>: a string operand raises \<^verbatim>\<open>TypeError\<close>, the sentinel propagates.\<close>

fun div_1000 :: "cell \<Rightarrow> exn + num" where
  "div_1000 (Str s) = Inl TypeError"
| "div_1000 (Num NaN) = Inr NaN"
| "div_1000 (Num (Val x)) = Inr (Val (x / 1000))"

fun num_sub :: "num \<Rightarrow> num \<Rightarrow> num" where
  "num_sub (Val a) (Val b) = Val (a - b)"
| "num_sub a b = NaN"

text \<open>\<^verbatim>\<open>x >= 0\<close> on a float: false on the sentinel.\<close>

fun num_ge0 :: "num \<Rightarrow> bool" where
  "num_ge0 NaN = False"
| "num_ge0 (Val x) = (0 \<le> x)"

subsection \<open>Strings\<close>

text \<open>
  Strings are byte lists. \<^verbatim>\<open>str.lower()\<close> is modelled on the ASCII letters, which is
  all that the two keywords of the decoder can match.
\<close>

definition lower_char :: "char \<Rightarrow> char" where
  "lower_char c =
     (case map_of (zip ''ABCDEFGHIJKLMNOPQRSTUVWXYZ'' ''abcdefghijklmnopqrstuvwxyz'') c of
        Some d \<Rightarrow> d
      | None \<Rightarrow> c)"

definition lower :: "string \<Rightarrow> string" where
  "lower s = map lower_char s"

text \<open>\<^verbatim>\<open>s.startswith(p)\<close>.\<close>

fun startswith :: "string \<Rightarrow> string \<Rightarrow> bool" where
  "startswith s [] = True"
| "startswith [] (p # ps) = False"
| "startswith (c # cs) (p # ps) = (c = p \<and> startswith cs ps)"

text \<open>\<^verbatim>\<open>kw in s\<close> on strings: \<^verbatim>\<open>kw\<close> occurs in \<^verbatim>\<open>s\<close> as a contiguous run.\<close>

fun str_in :: "string \<Rightarrow> string \<Rightarrow> bool" where
  "str_in kw [] = (kw = [])"
| "str_in kw (c # cs) = (if startswith (c # cs) kw then True else str_in kw cs)"

text \<open>
  \<^verbatim>\<open>kw in str(cue_type).lower()\<close>. On a float \<^verbatim>\<open>str\<close> gives digits, a sign, a point,
  an exponent mark or \<^verbatim>\<open>nan\<close>, none of which contains a keyword of the decoder.
\<close>

fun cue_has :: "string \<Rightarrow> cell \<Rightarrow> bool" where
  "cue_has kw (Str s) = str_in kw (lower s)"
| "cue_has kw (Num x) = False"

section \<open>Event decoder (events.py)\<close>

record event =
  onset :: num
  duration :: num
  trial_type :: string
  accuracy :: cell
  response_time :: num

datatype warning = MissingData nat exn | TrialError nat exn

text \<open>
  The \<^verbatim>\<open>try\<close> block of \<^verbatim>\<open>process_single_trial\<close>: the reads happen in this order, and
  the first one that raises ends the block.
\<close>

definition trial_fields :: "dataframe \<Rightarrow> nat \<Rightarrow> exn + (cell \<times> cell \<times> num \<times> num \<times> num)" where
  "trial_fields timing_data trial_idx =
     (case iloc timing_data trial_idx 2 of Inl e \<Rightarrow> Inl e | Inr cue_type \<Rightarrow>
     (case iloc timing_data trial_idx 3 of Inl e \<Rightarrow> Inl e | Inr acc \<Rightarrow>
     (case iloc timing_data trial_idx 9 of Inl e \<Rightarrow> Inl e | Inr c9 \<Rightarrow>
     (case div_1000 c9 of Inl e \<Rightarrow> Inl e | Inr cue_onset \<Rightarrow>
     (case iloc timing_data trial_idx 10 of Inl e \<Rightarrow> Inl e | Inr c10 \<Rightarrow>
     (case div_1000 c10 of Inl e \<Rightarrow> Inl e | Inr cue_offset \<Rightarrow>
     (case iloc timing_data trial_idx 11 of Inl e \<Rightarrow> Inl e | Inr c11 \<Rightarrow>
     (case div_1000 c11 of Inl e \<Rightarrow> Inl e | Inr feedback_onset \<Rightarrow>
        Inr (cue_type, acc, cue_onset, cue_offset, feedback_onset)))))))))"

definition feedback_duration :: real where
  "feedback_duration = 2"

definition mk_event :: "num \<Rightarrow> num \<Rightarrow> string \<Rightarrow> cell \<Rightarrow> event" where
  "mk_event t d label acc =
     \<lparr>onset = t, duration = d, trial_type = label, accuracy = acc, response_time = NaN\<rparr>"

text \<open>The classification of one trial, after its fields have been read.\<close>

definition classify_trial :: "cell \<Rightarrow> cell \<Rightarrow> num \<Rightarrow> num \<Rightarrow> num \<Rightarrow> event list" where
  "classify_trial cue_type acc cue_onset cue_offset feedback_onset =
     (let cue_duration = num_sub cue_offset cue_onset in
      if cue_has ''smile'' cue_type then
        [mk_event cue_onset cue_duration ''anticip-reward'' acc,
         mk_event feedback_onset (Val feedback_duration)
           (if acc = Num (Val 1) then ''fb-reward'' else ''fb-miss-reward'') acc]
      else if cue_has ''neutral'' cue_type then
        [mk_event cue_onset cue_duration ''anticip-neutral'' acc,
         mk_event feedback_onset (Val feedback_duration)
           (if acc = Num (Val 1) then ''fb-corr-neutral'' else ''fb-incorr-neutral'') acc]
      else [])"

text \<open>
  \<^verbatim>\<open>process_single_trial\<close>: an \<^verbatim>\<open>IndexError\<close> of the reads is caught, warned about and
  answered with no events; any other exception leaves the function.
\<close>

definition process_single_trial :: "dataframe \<Rightarrow> nat \<Rightarrow> (exn + event list) \<times> warning list" where
  "process_single_trial timing_data trial_idx =
     (case trial_fields timing_data trial_idx of
        Inl IndexError \<Rightarrow> (Inr [], [MissingData trial_idx IndexError])
      | Inl e \<Rightarrow> (Inl e, [])
      | Inr (cue_type, acc, cue_onset, cue_offset, feedback_onset) \<Rightarrow>
          (Inr (classify_trial cue_type acc cue_onset cue_offset feedback_onset), []))"

text \<open>
  The loop of \<^verbatim>\<open>extract_midt_events\<close> over the trial indices, with its accumulators:
  a trial that raises is warned about and skipped.
\<close>

fun trials_loop ::
  "dataframe \<Rightarrow> nat list \<Rightarrow> event list \<times> warning list \<Rightarrow> event list \<times> warning list" where
  "trials_loop timing_data [] acc = acc"
| "trials_loop timing_data (trial_idx # rest) (events_list, warns) =
     (case process_single_trial timing_data trial_idx of
        (Inr event_data, w) \<Rightarrow>
          trials_loop timing_data rest (events_list @ event_data, warns @ w)
      | (Inl e, w) \<Rightarrow>
          trials_loop timing_data rest (events_list, warns @ w @ [TrialError trial_idx e]))"

text \<open>
  \<^verbatim>\<open>sort_values('onset')\<close> computes a permutation of the row positions from the key
  column alone and takes the rows in that order. The permutation comes from the sort of
  the numerical library (\<^verbatim>\<open>kind='quicksort'\<close> by default, which is not stable and
  differs between builds), so it is a parameter of the model.
\<close>

definition sort_values :: "(num list \<Rightarrow> nat list) \<Rightarrow> event list \<Rightarrow> event list" where
  "sort_values argsort evs = map (\<lambda>i. evs ! i) (argsort (map onset evs))"

text \<open>The order of the keys: ascending, the sentinel last.\<close>

fun onset_le :: "num \<Rightarrow> num \<Rightarrow> bool" where
  "onset_le (Val a) (Val b) = (a \<le> b)"
| "onset_le NaN (Val b) = False"
| "onset_le a NaN = True"

text \<open>
  Two key columns that no comparison tells apart: the sentinel sits at the same
  positions, and every two keys compare alike.
\<close>

definition same_order :: "num list \<Rightarrow> num list \<Rightarrow> bool" where
  "same_order ks ks' =
     (length ks = length ks'
      \<and> (\<forall>i < length ks. (ks ! i = NaN) = (ks' ! i = NaN))
      \<and> (\<forall>i < length ks. \<forall>j < length ks.
            onset_le (ks ! i) (ks ! j) = onset_le (ks' ! i) (ks' ! j)))"

text \<open>
  What is taken of the library's sort: it answers a permutation of the positions, along
  which the keys ascend with the sentinel last, and the permutation depends on the keys
  only through their comparisons. Nothing is taken about the order of equal keys.
\<close>

definition library_argsort :: "(num list \<Rightarrow> nat list) \<Rightarrow> bool" where
  "library_argsort argsort =
     ((\<forall>ks. distinct (argsort ks) \<and> set (argsort ks) = {..<length ks}
            \<and> sorted_wrt (\<lambda>i j. onset_le (ks ! i) (ks ! j)) (argsort ks))
      \<and> (\<forall>ks ks'. same_order ks ks' \<longrightarrow> argsort ks = argsort ks'))"

text \<open>The dummy-scan constants that \<^verbatim>\<open>extract_midt_events\<close> writes out itself.\<close>

definition events_dummy_scans :: nat where
  "events_dummy_scans = 5"

definition events_tr :: real where
  "events_tr = 16 / 10"

definition dummy_scan_time :: real where
  "dummy_scan_time = real events_dummy_scans * events_tr"

definition shift_onset :: "real \<Rightarrow> event \<Rightarrow> event" where
  "shift_onset d e = e\<lparr>onset := num_sub (onset e) (Val d)\<rparr>"

datatype decode_error = TimingFileEmpty | NoValidTrials

text \<open>The trial indices of the loop: \<^verbatim>\<open>range(trial_start, trial_end + 1)\<close>.\<close>

definition trial_window :: "dataframe \<Rightarrow> nat list" where
  "trial_window timing_data =
     (let trial_start = 20; trial_end = min 79 (length timing_data - 1)
      in [trial_start ..< trial_end + 1])"

text \<open>
  \<^verbatim>\<open>extract_midt_events\<close> from the validation of the parsed table to the returned
  events. Both failures are \<^verbatim>\<open>ValueError\<close>s of the source, told apart by their message.
\<close>

definition extract_midt_events ::
  "(num list \<Rightarrow> nat list) \<Rightarrow> dataframe \<Rightarrow> (decode_error + event list) \<times> warning list" where
  "extract_midt_events argsort timing_data =
     (if timing_data = [] then (Inl TimingFileEmpty, [])
      else
        (case trials_loop timing_data (trial_window timing_data) ([], []) of
           (events_list, warns) \<Rightarrow>
             if events_list = [] then (Inl NoValidTrials, warns)
             else
               (Inr (filter (\<lambda>e. num_ge0 (onset e))
                       (map (shift_onset dummy_scan_time) (sort_values argsort events_list))),
                warns)))"

section \<open>Configuration (config.py)\<close>

text \<open>
  One field of an exclusion entry \<^verbatim>\<open>[subject_id, reason, affected_sessions]\<close>: a
  string, or (for the affected sessions) a list of strings.
\<close>

datatype field = FStr string | FList "string list"

record config =
  subject_ids :: "string list"
  sessions_to_process :: "string list"
  excluded_subjects :: "field list list"
  tr :: real
  dummy_scans :: nat
  run_timing_extraction :: bool
  run_motion_extraction :: bool
  run_first_level :: bool
  motion_params :: "string list"

text \<open>The three tests that set \<^verbatim>\<open>session_affected\<close> for session \<^verbatim>\<open>ses\<close>.\<close>

fun session_affected :: "string \<Rightarrow> field \<Rightarrow> bool" where
  "session_affected ses (FStr s) = (if s = ''all'' then True else s = ''ses-'' @ ses)"
| "session_affected ses (FList l) = (''ses-'' @ ses \<in> set l)"

text \<open>
  The body of the loop over the exclusion entries: an entry with fewer than three fields
  is passed over; \<^verbatim>\<open>list.remove\<close> takes out the first occurrence.
\<close>

fun apply_exclusion :: "string \<Rightarrow> string list \<Rightarrow> field list \<Rightarrow> string list" where
  "apply_exclusion ses valid_subjects (FStr subject_id # reason # affected_sessions # extra) =
     (if session_affected ses affected_sessions \<and> subject_id \<in> set valid_subjects
      then remove1 subject_id valid_subjects
      else valid_subjects)"
| "apply_exclusion ses valid_subjects exclusion = valid_subjects"

definition get_valid_subjects_for_session :: "config \<Rightarrow> string \<Rightarrow> string list" where
  "get_valid_subjects_for_session self ses =
     foldl (apply_exclusion ses) (subject_ids self) (excluded_subjects self)"

section \<open>Timing extraction of a session (pipeline.py)\<close>

text \<open>
  \<^verbatim>\<open>extract_timing_for_session\<close> over the parsed timing files of the behavioural
  directory: the success flag it returns, and the event tables it has written. The call
  of \<^verbatim>\<open>extract_midt_events\<close> passes the file, the output directory and the session;
  nothing of the configuration's acquisition parameters reaches the decoder.
\<close>

definition extract_timing_for_session ::
  "(num list \<Rightarrow> nat list) \<Rightarrow> config \<Rightarrow> string \<Rightarrow> dataframe list \<Rightarrow> bool \<times> event list list" where
  "extract_timing_for_session argsort cfg ses timing_files =
     (let written =
        concat (map (\<lambda>timing_file.
                  case fst (extract_midt_events argsort timing_file) of
                    Inr events_df \<Rightarrow> [events_df]
                  | Inl e \<Rightarrow> []) timing_files)
      in (0 < length written, written))"

section \<open>Contrast resolution (first_level.py)\<close>

text \<open>The catalogue, in the order of the dictionary literal.\<close>

definition define_midt_contrasts :: "(string \<times> int list) list" where
  "define_midt_contrasts =
     [(''anticip-reward-vs-neutral'', [1, -1, 0, 0, 0, 0]),
      (''anticip-neutral-vs-reward'', [-1, 1, 0, 0, 0, 0]),
      (''feedback-reward-vs-neutral-correct'', [0, 0, 1, 0, -1, 0]),
      (''feedback-neutral-correct-vs-reward'', [0, 0, -1, 0, 1, 0]),
      (''feedback-reward-success-vs-failure'', [0, 0, 1, -1, 0, 0]),
      (''feedback-reward-failure-vs-success'', [0, 0, -1, 1, 0, 0]),
      (''feedback-neutral-success-vs-failure'', [0, 0, 0, 0, 1, -1]),
      (''feedback-neutral-failure-vs-success'', [0, 0, 0, 0, -1, 1]),
      (''anticip-reward'', [1, 0, 0, 0, 0, 0]),
      (''anticip-neutral'', [0, 1, 0, 0, 0, 0]),
      (''feedback-reward-success'', [0, 0, 1, 0, 0, 0]),
      (''feedback-neutral-success'', [0, 0, 0, 0, 1, 0])]"

text \<open>The condition order that the catalogue's weight lists are written against.\<close>

definition midt_conditions :: "string list" where
  "midt_conditions =
     [''anticip-reward'', ''anticip-neutral'', ''fb-reward'', ''fb-miss-reward'',
      ''fb-corr-neutral'', ''fb-incorr-neutral'']"

datatype contrast_def = ByName string | ByVector "real list"

datatype resolution = Resolved contrast_def | Skipped string | Failed exn

definition condition_columns :: "string list \<Rightarrow> string list" where
  "condition_columns design_columns =
     filter (\<lambda>col. \<not> (startswith col ''drift'' \<or> startswith col ''constant'')) design_columns"

text \<open>\<^verbatim>\<open>list.index\<close>: the first position of the value, \<^verbatim>\<open>ValueError\<close> when absent.\<close>

fun index :: "'a list \<Rightarrow> 'a \<Rightarrow> exn + nat" where
  "index [] x = Inl ValueError"
| "index (y # ys) x =
     (if y = x then Inr 0
      else (case index ys x of Inl e \<Rightarrow> Inl e | Inr i \<Rightarrow> Inr (Suc i)))"

text \<open>The branch shared by the four signed-difference contrasts that are computed.\<close>

definition signed_pair :: "string list \<Rightarrow> string \<Rightarrow> string \<Rightarrow> resolution" where
  "signed_pair cols pos_name neg_name =
     (if pos_name \<in> set cols \<and> neg_name \<in> set cols then
        (case index cols pos_name of Inl e \<Rightarrow> Failed e | Inr i \<Rightarrow>
        (case index cols neg_name of Inl e \<Rightarrow> Failed e | Inr j \<Rightarrow>
           Resolved (ByVector ((replicate (length cols) 0)[i := 1, j := - 1]))))
      else Skipped ''missing conditions'')"

text \<open>
  The chain of tests on \<^verbatim>\<open>contrast_name\<close> in \<^verbatim>\<open>run_first_level_midt\<close>: what is handed to
  the model's \<^verbatim>\<open>compute_contrast\<close>, or the decision to skip.
\<close>

definition resolve_contrast :: "string \<Rightarrow> string list \<Rightarrow> resolution" where
  "resolve_contrast contrast_name design_columns =
     (let cols = condition_columns design_columns in
      if contrast_name = ''anticip-reward'' then Resolved (ByName ''anticip-reward'')
      else if contrast_name = ''anticip-neutral'' then Resolved (ByName ''anticip-neutral'')
      else if contrast_name = ''feedback-reward-success'' then Resolved (ByName ''fb-reward'')
      else if contrast_name = ''feedback-neutral-success'' then Resolved (ByName ''fb-corr-neutral'')
      else if contrast_name = ''anticip-reward-vs-neutral'' then
        signed_pair cols ''anticip-reward'' ''anticip-neutral''
      else if contrast_name = ''feedback-reward-vs-neutral-correct'' then
        signed_pair cols ''fb-reward'' ''fb-corr-neutral''
      else if contrast_name = ''feedback-reward-success-vs-failure'' then
        signed_pair cols ''fb-reward'' ''fb-miss-reward''
      else if contrast_name = ''feedback-neutral-success-vs-failure'' then
        signed_pair cols ''fb-corr-neutral'' ''fb-incorr-neutral''
      else Skipped ''complex contrast'')"

text \<open>The loop over the catalogue: every entry with its resolution.\<close>

definition resolve_all :: "string list \<Rightarrow> (string \<times> resolution) list" where
  "resolve_all design_columns =
     map (\<lambda>(contrast_name, contrast_weights).
            (contrast_name, resolve_contrast contrast_name design_columns))
         define_midt_contrasts"

section \<open>Motion quality control (motion.py)\<close>











section \<open>Per-subject analysis of a session (pipeline.py, utils.py)\<close>

text \<open>What a call does: it returns a value or raises.\<close>

datatype 'a outcome = Returns 'a | Raises exn

text \<open>
  \<^verbatim>\<open>process_single_subject\<close>. The first-level analysis of a subject, which reads the
  subject's files and fits the external model, is the parameter \<^verbatim>\<open>first_level\<close>; the
  writes to the log are left out.
\<close>

definition process_single_subject :: "(string \<Rightarrow> bool outcome) \<Rightarrow> string \<Rightarrow> bool" where
  "process_single_subject first_level subject_id =
     (case first_level subject_id of Returns success \<Rightarrow> success | Raises e \<Rightarrow> False)"

text \<open>
  \<^verbatim>\<open>safe_parallel_processing\<close>. The sequential branch answers \<^verbatim>\<open>None\<close> for an item
  whose call raises. The worker pool of the external library either is not installed,
  or breaks, or runs; when it runs it answers one result per item in the order of the
  items, and an exception of a worker leaves the pool. Every failure of the pool falls
  back to the sequential branch.
\<close>

datatype joblib = NotInstalled | PoolBreaks | PoolRuns

definition sequential_results :: "('a \<Rightarrow> 'b outcome) \<Rightarrow> 'a list \<Rightarrow> 'b option list" where
  "sequential_results func items =
     map (\<lambda>item. case func item of Returns r \<Rightarrow> Some r | Raises e \<Rightarrow> None) items"

fun returned :: "'b outcome \<Rightarrow> bool" where
  "returned (Returns r) = True"
| "returned (Raises e) = False"

definition safe_parallel_processing ::
  "joblib \<Rightarrow> ('a \<Rightarrow> 'b outcome) \<Rightarrow> 'a list \<Rightarrow> int \<Rightarrow> 'b option list" where
  "safe_parallel_processing pool func items n_jobs =
     (if n_jobs = 1 then sequential_results func items
      else if pool = PoolRuns \<and> list_all (\<lambda>item. returned (func item)) items then
        map (\<lambda>item. case func item of Returns r \<Rightarrow> Some r | Raises e \<Rightarrow> None) items
      else sequential_results func items)"

record session_summary =
  session_name :: string
  total_subjects :: nat
  successful_subjects :: nat
  failed_subjects :: "string list"

text \<open>The counting loop over \<^verbatim>\<open>enumerate(results)\<close> of the parallel branch.\<close>

definition count_results ::
  "string list \<Rightarrow> bool option list \<Rightarrow> session_summary \<Rightarrow> session_summary" where
  "count_results session_subjects results summary =
     foldl (\<lambda>sm (i, result).
              if result = Some True
              then sm\<lparr>successful_subjects := successful_subjects sm + 1\<rparr>
              else sm\<lparr>failed_subjects := failed_subjects sm @ [session_subjects ! i]\<rparr>)
           summary (enumerate 0 results)"

text \<open>The loop of the sequential branch.\<close>

definition count_sequential ::
  "(string \<Rightarrow> bool outcome) \<Rightarrow> string list \<Rightarrow> session_summary \<Rightarrow> session_summary" where
  "count_sequential first_level session_subjects summary =
     foldl (\<lambda>sm subject_id.
              if process_single_subject first_level subject_id
              then sm\<lparr>successful_subjects := successful_subjects sm + 1\<rparr>
              else sm\<lparr>failed_subjects := failed_subjects sm @ [subject_id]\<rparr>)
           summary session_subjects"

text \<open>Step 3 of \<^verbatim>\<open>process_single_session\<close>.\<close>

definition first_level_step ::
  "joblib \<Rightarrow> (string \<Rightarrow> bool outcome) \<Rightarrow> string list \<Rightarrow> int \<Rightarrow> session_summary \<Rightarrow> session_summary" where
  "first_level_step pool first_level session_subjects n_jobs summary =
     (if n_jobs > 1 then
        count_results session_subjects
          (safe_parallel_processing pool
             (\<lambda>subject_id. Returns (process_single_subject first_level subject_id))
             session_subjects n_jobs)
          summary
      else count_sequential first_level session_subjects summary)"

text \<open>
  \<^verbatim>\<open>process_single_session\<close>. The outcomes of the two earlier steps, which work on the
  files of the session, are the parameters \<^verbatim>\<open>timing_success\<close> and \<^verbatim>\<open>motion_success\<close>.
\<close>

definition process_single_session ::
  "config \<Rightarrow> joblib \<Rightarrow> bool \<Rightarrow> bool \<Rightarrow> (string \<Rightarrow> bool outcome) \<Rightarrow> string \<Rightarrow> string list \<Rightarrow> int
     \<Rightarrow> session_summary" where
  "process_single_session cfg pool timing_success motion_success first_level ses
       session_subjects n_jobs =
     (let summary = \<lparr>session_name = ses, total_subjects = length session_subjects,
                      successful_subjects = 0, failed_subjects = []\<rparr>
      in
        if run_timing_extraction cfg \<and> \<not> timing_success then summary
        else if run_motion_extraction cfg \<and> \<not> motion_success then summary
        else if run_first_level cfg then
          first_level_step pool first_level session_subjects n_jobs summary
        else summary)"

section \<open>The loop over the sessions (pipeline.py)\<close>

text \<open>
  \<^verbatim>\<open>extract_motion_regressors_for_session\<close> starts with \<^verbatim>\<open>session_config = config\<close>
  and assigns the session's subjects and the session to it. No copy is made: the two
  assignments change the configuration of the run.
\<close>

definition session_config :: "config \<Rightarrow> string \<Rightarrow> string list \<Rightarrow> config" where
  "session_config cfg ses session_subjects =
     cfg\<lparr>subject_ids := session_subjects, sessions_to_process := [ses]\<rparr>"

text \<open>
  The configuration after \<^verbatim>\<open>process_single_session\<close>: step 2 is reached unless step 1
  ran and failed, and it is run when \<^verbatim>\<open>run_motion_extraction\<close> is set.
\<close>

definition config_after_session :: "config \<Rightarrow> bool \<Rightarrow> string \<Rightarrow> string list \<Rightarrow> config" where
  "config_after_session cfg timing_success ses session_subjects =
     (if run_timing_extraction cfg \<and> \<not> timing_success then cfg
      else if run_motion_extraction cfg then session_config cfg ses session_subjects
      else cfg)"

text \<open>
  The loop of \<^verbatim>\<open>run_complete_pipeline\<close> over the session list it started with: the
  sessions that are processed, each with the subject list handed to
  \<^verbatim>\<open>process_single_session\<close>. A session without valid subjects is passed over. Whether
  the timing extraction of a session succeeds is the parameter \<^verbatim>\<open>timing_success\<close>.
\<close>

fun session_loop ::
  "(string \<Rightarrow> bool) \<Rightarrow> config \<Rightarrow> string list \<Rightarrow> (string \<times> string list) list" where
  "session_loop timing_success cfg [] = []"
| "session_loop timing_success cfg (ses # rest) =
     (let session_subjects = get_valid_subjects_for_session cfg ses in
      if session_subjects = [] then session_loop timing_success cfg rest
      else
        (ses, session_subjects) #
          session_loop timing_success
            (config_after_session cfg (timing_success ses) ses session_subjects) rest)"

definition run_complete_pipeline_sessions ::
  "(string \<Rightarrow> bool) \<Rightarrow> config \<Rightarrow> (string \<times> string list) list" where
  "run_complete_pipeline_sessions timing_success cfg =
     session_loop timing_success cfg (sessions_to_process cfg)"

section \<open>Notions used to state the properties\<close>

text \<open>What one trial adds to \<^verbatim>\<open>events_list\<close>: its events, or nothing when it raises.\<close>

definition trial_yield :: "dataframe \<Rightarrow> nat \<Rightarrow> event list" where
  "trial_yield td i =
     (case fst (process_single_trial td i) of Inr evs \<Rightarrow> evs | Inl e \<Rightarrow> [])"

definition trial_succeeds :: "dataframe \<Rightarrow> nat \<Rightarrow> bool" where
  "trial_succeeds td i =
     (case fst (process_single_trial td i) of Inr evs \<Rightarrow> True | Inl e \<Rightarrow> False)"

text \<open>The warnings of one trial: its own, then the one of the loop when it raises.\<close>

definition trial_warnings :: "dataframe \<Rightarrow> nat \<Rightarrow> warning list" where
  "trial_warnings td i =
     (case process_single_trial td i of
        (Inr evs, w) \<Rightarrow> w
      | (Inl e, w) \<Rightarrow> w @ [TrialError i e])"

text \<open>The events returned by the trials of the window that do not raise, in order.\<close>

definition succeeded_events :: "dataframe \<Rightarrow> event list" where
  "succeeded_events td =
     concat (map (\<lambda>i. projr (fst (process_single_trial td i)))
               (filter (trial_succeeds td) (trial_window td)))"

text \<open>The closed set of trial-type labels.\<close>

definition midt_labels :: "string list" where
  "midt_labels =
     [''anticip-reward'', ''anticip-neutral'', ''fb-reward'', ''fb-miss-reward'',
      ''fb-corr-neutral'', ''fb-incorr-neutral'']"

subsection \<open>Example inputs\<close>

text \<open>
  A row of a timing table with twelve columns: cue type in column 2, accuracy in
  column 3, the three timestamps (milliseconds) in columns 9 to 11.
\<close>

definition example_row :: "cell \<Rightarrow> cell \<Rightarrow> cell \<Rightarrow> cell \<Rightarrow> cell \<Rightarrow> cell list" where
  "example_row cue acc t_cue t_target t_feedback =
     [Num (Val 1), Str ''run1'', cue, acc, Num NaN, Num NaN, Num NaN, Num NaN, Num NaN,
      t_cue, t_target, t_feedback]"

text \<open>The twenty rows before the window of the loop.\<close>

definition practice_rows :: dataframe where
  "practice_rows =
     replicate 20
       (example_row (Str ''practice'') (Num (Val 0)) (Num (Val 0)) (Num (Val 0)) (Num (Val 0)))"

definition example_events :: "event list" where
  "example_events =
     [mk_event (Val 30) (Val 2) ''fb-reward'' (Num (Val 1)),
      mk_event NaN (Val 2) ''fb-miss-reward'' (Num (Val 0)),
      mk_event (Val 5) (Val 4) ''anticip-reward'' (Num (Val 1)),
      mk_event (Val 30) (Val 4) ''anticip-neutral'' (Num (Val 1))]"

text \<open>The keys ascend strictly along a list.\<close>

definition onset_lt :: "num \<Rightarrow> num \<Rightarrow> bool" where
  "onset_lt a b = (\<not> onset_le b a)"

text \<open>
  A sort of the kind of \<^const>\<open>library_argsort\<close> that is not stable: of two rows with
  equal keys, the later one comes first.
\<close>

fun insert_index :: "num list \<Rightarrow> nat \<Rightarrow> nat list \<Rightarrow> nat list" where
  "insert_index ks i [] = [i]"
| "insert_index ks i (j # js) =
     (if onset_le (ks ! j) (ks ! i) then j # insert_index ks i js else i # j # js)"

definition reversing_argsort :: "num list \<Rightarrow> nat list" where
  "reversing_argsort ks = foldr (insert_index ks) [0..<length ks] []"

text \<open>
  Three trials in the window: the first has a cue timestamp that is not a number in a
  column that was not coerced, the second is a well-formed neutral trial, the third row
  stops after three columns.
\<close>

definition raising_table :: dataframe where
  "raising_table =
     practice_rows @
       [example_row (Str ''smile.bmp'') (Num (Val 1)) (Str ''n/a'') (Num (Val 14000))
          (Num (Val 16000)),
        example_row (Str ''Neutral.bmp'') (Num (Val 0)) (Num (Val 20000)) (Num (Val 24000))
          (Num (Val 26000)),
        [Num (Val 23), Str ''run1'', Str ''smile.bmp'']]"

text \<open>One trial in the window, with a cue type that matches no keyword.\<close>

definition unrecognized_table :: dataframe where
  "unrecognized_table =
     practice_rows @
       [example_row (Str ''circle.bmp'') (Num (Val 1)) (Num (Val 10000)) (Num (Val 14000))
          (Num (Val 16000))]"

text \<open>
  A reward trial whose target timestamp lies before its cue timestamp, and a neutral
  trial whose target and feedback fields were blank in the file.
\<close>

definition early_target_table :: dataframe where
  "early_target_table =
     practice_rows @
       [example_row (Str ''smile.bmp'') (Num (Val 1)) (Num (Val 20000)) (Num (Val 19000))
          (Num (Val 25000)),
        example_row (Str ''neutral.bmp'') (Num (Val 0)) (Num (Val 30000)) (Num NaN) (Num NaN)]"

text \<open>A cue type that holds the word reward, and one that holds both keywords.\<close>

definition reward_word_table :: dataframe where
  "reward_word_table =
     practice_rows @
       [example_row (Str ''reward.bmp'') (Num (Val 1)) (Num (Val 10000)) (Num (Val 14000))
          (Num (Val 16000)),
        example_row (Str ''smile_neutral.bmp'') (Num (Val 1)) (Num (Val 20000))
          (Num (Val 24000)) (Num (Val 26000))]"

text \<open>Cue types in mixed case, and one that matches no keyword.\<close>

definition mixed_case_table :: dataframe where
  "mixed_case_table =
     practice_rows @
       [example_row (Str ''SMILE.BMP'') (Num (Val 0)) (Num (Val 10000)) (Num (Val 14000))
          (Num (Val 16000)),
        example_row (Str ''Neutral.bmp'') (Num (Val 1)) (Num (Val 20000)) (Num (Val 24000))
          (Num (Val 26000)),
        example_row (Str ''circle.bmp'') (Num (Val 1)) (Num (Val 30000)) (Num (Val 34000))
          (Num (Val 36000))]"

text \<open>A reward trial whose cue comes five seconds after the start of the scan.\<close>

definition early_cue_table :: dataframe where
  "early_cue_table =
     practice_rows @
       [example_row (Str ''smile.bmp'') (Num (Val 1)) (Num (Val 5000)) (Num (Val 9000))
          (Num (Val 11000))]"

text \<open>A configuration with no dummy scans and a repetition time of two seconds.\<close>

definition other_config :: config where
  "other_config =
     \<lparr>subject_ids = [''sub-001''], sessions_to_process = [''1''], excluded_subjects = [],
      tr = 2, dummy_scans = 0, run_timing_extraction = True, run_motion_extraction = True,
      run_first_level = True,
      motion_params = [''trans_x'', ''trans_y'', ''trans_z'', ''rot_x'', ''rot_y'', ''rot_z'']\<rparr>"

text \<open>
  An exclusion entry names subject \<^verbatim>\<open>s\<close> and affects session \<^verbatim>\<open>ses\<close>: it has at
  least three fields, the first is \<^verbatim>\<open>s\<close>, and the third passes one of the three tests.
\<close>

fun excludes :: "string \<Rightarrow> string \<Rightarrow> field list \<Rightarrow> bool" where
  "excludes ses s (FStr subject_id # reason # affected_sessions # extra) =
     (subject_id = s \<and> session_affected ses affected_sessions)"
| "excludes ses s exclusion = False"

text \<open>
  Three subjects and two sessions: the first subject is excluded everywhere, the second
  from session 1 only, and the entry of the third lacks its third field.
\<close>

definition two_session_config :: config where
  "two_session_config =
     \<lparr>subject_ids = [''sub-001'', ''sub-002'', ''sub-003''],
      sessions_to_process = [''1'', ''2''],
      excluded_subjects =
        [[FStr ''sub-001'', FStr ''Motion artifacts'', FStr ''all''],
         [FStr ''sub-002'', FStr ''Timing file issues'', FStr ''ses-1''],
         [FStr ''sub-003'', FStr ''incomplete entry'']],
      tr = 16 / 10, dummy_scans = 5, run_timing_extraction = True,
      run_motion_extraction = True, run_first_level = True,
      motion_params = [''trans_x'', ''trans_y'', ''trans_z'', ''rot_x'', ''rot_y'', ''rot_z'']\<rparr>"

text \<open>A subject list that names the first subject twice, with that subject excluded
  from all sessions.\<close>

definition repeated_id_config :: config where
  "repeated_id_config =
     \<lparr>subject_ids = [''sub-001'', ''sub-002'', ''sub-001''],
      sessions_to_process = [''1''],
      excluded_subjects = [[FStr ''sub-001'', FStr ''Motion artifacts'', FStr ''all'']],
      tr = 16 / 10, dummy_scans = 5, run_timing_extraction = True,
      run_motion_extraction = True, run_first_level = True,
      motion_params = [''trans_x'', ''trans_y'', ''trans_z'', ''rot_x'', ''rot_y'', ''rot_z'']\<rparr>"

text \<open>The first-level analysis of a subject returned \<^verbatim>\<open>True\<close>.\<close>

definition analysis_ok :: "(string \<Rightarrow> bool outcome) \<Rightarrow> string \<Rightarrow> bool" where
  "analysis_ok first_level subject_id = (first_level subject_id = Returns True)"

text \<open>
  A session in which the analysis of the second subject raises for a missing input
  file and every other analysis succeeds.
\<close>

fun missing_file_run :: "string \<Rightarrow> bool outcome" where
  "missing_file_run s = (if s = ''sub-002'' then Raises FileNotFoundError else Returns True)"

text \<open>
  The two conditions that a weight list of the catalogue refers to: the ones at the
  positions of its plus one and of its minus one in the catalogue's condition order.
\<close>

definition paired_conditions :: "int list \<Rightarrow> (string \<times> string) option" where
  "paired_conditions w =
     (case (index w 1, index w (- 1)) of
        (Inr i, Inr j) \<Rightarrow> Some (midt_conditions ! i, midt_conditions ! j)
      | _ \<Rightarrow> None)"

text \<open>The signed-difference contrasts that have a branch of their own in the resolver.\<close>

definition computed_pairs :: "string list" where
  "computed_pairs =
     [''anticip-reward-vs-neutral'', ''feedback-reward-vs-neutral-correct'',
      ''feedback-reward-success-vs-failure'', ''feedback-neutral-success-vs-failure'']"

text \<open>
  The weight vector as the specification words it: over the realized columns, plus one
  where the first condition is found by name, minus one where the second is, else zero.
\<close>

definition name_lookup_vector :: "string list \<Rightarrow> string \<Rightarrow> string \<Rightarrow> real list" where
  "name_lookup_vector cols p n =
     map (\<lambda>k. if index cols p = Inr k then 1 else if index cols n = Inr k then - 1 else 0)
       [0..<length cols]"

text \<open>
  The columns of a fitted design in which no reward trial was missed and no neutral
  trial was wrong: conditions in alphabetical order, a confound, a drift term, the
  constant.
\<close>

definition realized_design :: "string list" where
  "realized_design =
     [''anticip-neutral'', ''anticip-reward'', ''fb-corr-neutral'', ''fb-reward'', ''trans_x'',
      ''drift_1'', ''constant'']"



section \<open>The loop over the trials\<close>

lemma trials_loop_unfold:
  "trials_loop td idxs (es, ws) =
     (es @ concat (map (trial_yield td) idxs), ws @ concat (map (trial_warnings td) idxs))"
proof (induction idxs arbitrary: es ws)
  case Nil
  show ?case by simp
next
  case (Cons i rest)
  show ?case
  proof (cases "process_single_trial td i")
    case (Pair r w)
    then show ?thesis
      by (cases r) (simp_all add: Cons.IH trial_yield_def trial_warnings_def)
  qed
qed

lemma extract_fst:
  "fst (extract_midt_events argsort td) =
     (if td = [] then Inl TimingFileEmpty
      else if concat (map (trial_yield td) (trial_window td)) = [] then Inl NoValidTrials
      else Inr (filter (\<lambda>e. num_ge0 (onset e))
                 (map (shift_onset dummy_scan_time)
                   (sort_values argsort (concat (map (trial_yield td) (trial_window td)))))))"
  by (simp add: extract_midt_events_def trials_loop_unfold)

section \<open>Sorting and the dummy-scan shift\<close>

lemma onset_le_total: "\<not> onset_le a b \<Longrightarrow> onset_le b a"
  by (cases a; cases b) simp_all

lemma onset_le_trans: "onset_le a b \<Longrightarrow> onset_le b c \<Longrightarrow> onset_le a c"
  by (cases a; cases b; cases c) simp_all

lemma set_insert_index: "set (insert_index ks i js) = insert i (set js)"
  by (induction js) auto

lemma distinct_insert_index:
  "i \<notin> set js \<Longrightarrow> distinct js \<Longrightarrow> distinct (insert_index ks i js)"
  by (induction js) (auto simp: set_insert_index)

lemma sorted_insert_index:
  "sorted_wrt (\<lambda>a b. onset_le (ks ! a) (ks ! b)) js \<Longrightarrow>
     sorted_wrt (\<lambda>a b. onset_le (ks ! a) (ks ! b)) (insert_index ks i js)"
proof (induction js)
  case Nil
  show ?case by simp
next
  case (Cons j js)
  show ?case
  proof (cases "onset_le (ks ! j) (ks ! i)")
    case True
    with Cons show ?thesis by (auto simp: set_insert_index)
  next
    case False
    then have ij: "onset_le (ks ! i) (ks ! j)" by (rule onset_le_total)
    have "\<forall>x\<in>set js. onset_le (ks ! i) (ks ! x)"
    proof
      fix x assume "x \<in> set js"
      with Cons.prems have "onset_le (ks ! j) (ks ! x)" by simp
      with ij show "onset_le (ks ! i) (ks ! x)" by (rule onset_le_trans)
    qed
    with False ij Cons.prems show ?thesis by simp
  qed
qed

lemma foldr_insert_index:
  "distinct xs \<Longrightarrow>
     distinct (foldr (insert_index ks) xs []) \<and> set (foldr (insert_index ks) xs []) = set xs
     \<and> sorted_wrt (\<lambda>a b. onset_le (ks ! a) (ks ! b)) (foldr (insert_index ks) xs [])"
  by (induction xs) (simp_all add: set_insert_index distinct_insert_index sorted_insert_index)

lemma insert_index_same_order:
  assumes "same_order ks ks'" and "i < length ks" and "set js \<subseteq> {..<length ks}"
  shows "insert_index ks i js = insert_index ks' i js"
  using assms(3)
proof (induction js)
  case Nil
  show ?case by simp
next
  case (Cons j js)
  then have j: "j < length ks" and js: "set js \<subseteq> {..<length ks}" by simp_all
  from assms(1) j assms(2)
  have "onset_le (ks ! j) (ks ! i) = onset_le (ks' ! j) (ks' ! i)"
    by (simp add: same_order_def)
  with Cons.IH [OF js] show ?case by simp
qed

lemma foldr_insert_index_same_order:
  assumes "same_order ks ks'" and "set xs \<subseteq> {..<length ks}" and "distinct xs"
  shows "foldr (insert_index ks) xs [] = foldr (insert_index ks') xs []"
  using assms(2,3)
proof (induction xs)
  case Nil
  show ?case by simp
next
  case (Cons x xs)
  then have x: "x < length ks" and xs: "set xs \<subseteq> {..<length ks}" and d: "distinct xs"
    by simp_all
  from foldr_insert_index [OF d, of ks'] xs
  have sub: "set (foldr (insert_index ks') xs []) \<subseteq> {..<length ks}" by simp
  show ?case
    by (simp add: Cons.IH [OF xs d] insert_index_same_order [OF assms(1) x sub])
qed

lemma reversing_argsort_ok: "library_argsort reversing_argsort"
proof -
  have a: "distinct (reversing_argsort ks) \<and> set (reversing_argsort ks) = {..<length ks}
            \<and> sorted_wrt (\<lambda>i j. onset_le (ks ! i) (ks ! j)) (reversing_argsort ks)" for ks
    using foldr_insert_index [of "[0..<length ks]" ks]
    by (simp add: reversing_argsort_def atLeast0LessThan)
  have b: "reversing_argsort ks = reversing_argsort ks'" if "same_order ks ks'" for ks ks'
  proof -
    from that have len: "length ks' = length ks" by (simp add: same_order_def)
    have "foldr (insert_index ks) [0..<length ks] [] = foldr (insert_index ks') [0..<length ks] []"
      using that by (rule foldr_insert_index_same_order) (simp_all add: atLeast0LessThan)
    then show ?thesis by (simp add: reversing_argsort_def len)
  qed
  from a b show ?thesis unfolding library_argsort_def by blast
qed

lemma sorted_perm_unique:
  assumes "distinct xs" "distinct ys" "set xs = set ys"
    and "sorted_wrt R xs" "sorted_wrt R ys"
    and "\<And>a b. a \<in> set xs \<Longrightarrow> b \<in> set xs \<Longrightarrow> R a b \<Longrightarrow> R b a \<Longrightarrow> a = b"
  shows "xs = ys"
  using assms
proof (induction xs arbitrary: ys)
  case Nil
  then show ?case by simp
next
  case (Cons x xs)
  from Cons.prems(3) obtain y ys' where ys: "ys = y # ys'"
    by (cases ys) auto
  have xy: "x = y"
  proof (rule ccontr)
    assume ne: "x \<noteq> y"
    with Cons.prems(3) ys have "x \<in> set ys'" and "y \<in> set xs" by auto
    with Cons.prems(4,5) ys have "R y x" and "R x y" by auto
    moreover from \<open>y \<in> set xs\<close> have "y \<in> set (x # xs)" by simp
    ultimately have "x = y" using Cons.prems(6) [of x y] by simp
    with ne show False by simp
  qed
  from Cons.prems(1,2,3) ys xy have "set xs = set ys'" by auto
  moreover from Cons.prems ys have "distinct xs" "distinct ys'" "sorted_wrt R xs" "sorted_wrt R ys'"
    by simp_all
  ultimately have "xs = ys'"
    using Cons.IH [of ys'] Cons.prems(6) by simp
  with xy ys show ?case by simp
qed

lemma library_argsort_sorted_input:
  assumes "library_argsort argsort" and "sorted_wrt onset_lt ks"
  shows "argsort ks = [0..<length ks]"
proof (rule sorted_perm_unique [where R = "\<lambda>i j. onset_le (ks ! i) (ks ! j)"])
  from assms(1) show "distinct (argsort ks)" by (simp add: library_argsort_def)
  show "distinct [0..<length ks]" by simp
  from assms(1) show "set (argsort ks) = set [0..<length ks]"
    by (simp add: library_argsort_def atLeast0LessThan)
  from assms(1) show "sorted_wrt (\<lambda>i j. onset_le (ks ! i) (ks ! j)) (argsort ks)"
    by (simp add: library_argsort_def)
  have lt: "onset_lt (ks ! i) (ks ! j)" if "i < j" "j < length ks" for i j
    using assms(2) that by (auto simp: sorted_wrt_iff_nth_less)
  show "sorted_wrt (\<lambda>i j. onset_le (ks ! i) (ks ! j)) [0..<length ks]"
  proof (simp add: sorted_wrt_iff_nth_less, intro allI impI)
    fix i j assume "i < j" "j < length ks"
    from lt [OF this] show "onset_le (ks ! i) (ks ! j)"
      by (simp add: onset_lt_def onset_le_total)
  qed
  fix a b
  assume a: "a \<in> set (argsort ks)" and b: "b \<in> set (argsort ks)"
    and ab: "onset_le (ks ! a) (ks ! b)" and ba: "onset_le (ks ! b) (ks ! a)"
  from assms(1) a b have "a < length ks" "b < length ks"
    by (simp_all add: library_argsort_def)
  show "a = b"
  proof (rule ccontr)
    assume "a \<noteq> b"
    then consider "a < b" | "b < a" by linarith
    then show False
    proof cases
      case 1
      from lt [OF 1 \<open>b < length ks\<close>] ba show False by (simp add: onset_lt_def)
    next
      case 2
      from lt [OF 2 \<open>a < length ks\<close>] ab show False by (simp add: onset_lt_def)
    qed
  qed
qed

lemma sort_values_sorted_input:
  assumes "library_argsort argsort" and "sorted_wrt onset_lt (map onset evs)"
  shows "sort_values argsort evs = evs"
  using library_argsort_sorted_input [OF assms]
  by (simp add: sort_values_def map_nth)

lemma set_sort_values:
  assumes "library_argsort argsort"
  shows "set (sort_values argsort evs) = set evs"
proof -
  from assms have "set (argsort (map onset evs)) = {..<length evs}"
    by (simp add: library_argsort_def)
  then have "set (sort_values argsort evs) = (\<lambda>i. evs ! i) ` {..<length evs}"
    by (simp add: sort_values_def)
  also have "\<dots> = set evs"
    by (auto simp: set_conv_nth)
  finally show ?thesis .
qed

lemma shift_same_order:
  "same_order (map onset evs) (map onset (map (shift_onset d) evs))"
proof -
  have mask: "(num_sub k (Val d) = NaN) = (k = NaN)" for k
    by (cases k) simp_all
  have le: "onset_le (num_sub a (Val d)) (num_sub b (Val d)) = onset_le a b" for a b
    by (cases a; cases b) simp_all
  show ?thesis
    by (simp add: same_order_def shift_onset_def mask le)
qed

text \<open>
  C9. Whatever sort of the library's kind is used, stable or not: sorting the events by
  onset after the global shift puts them in the same order as sorting them before it.
  The shift keeps the sentinel where it is and keeps every comparison of two onsets, so
  the sort computes the same permutation of the rows.
\<close>

theorem sort_values_shift_commute:
  assumes "library_argsort argsort"
  shows "sort_values argsort (map (shift_onset d) evs) =
           map (shift_onset d) (sort_values argsort evs)"
proof -
  from assms shift_same_order [of evs d]
  have eq: "argsort (map onset (map (shift_onset d) evs)) = argsort (map onset evs)"
    unfolding library_argsort_def by metis
  from assms have "\<forall>i\<in>set (argsort (map onset evs)). i < length evs"
    by (simp add: library_argsort_def)
  then show ?thesis
    unfolding sort_values_def eq by simp
qed

theorem sort_values_shift_commute_witness:
  "library_argsort reversing_argsort
   \<and> map onset (sort_values reversing_argsort (map (shift_onset dummy_scan_time) example_events))
       = [Val (- 3), Val 22, Val 22, NaN]
   \<and> map trial_type
         (sort_values reversing_argsort (map (shift_onset dummy_scan_time) example_events))
       = [''anticip-reward'', ''anticip-neutral'', ''fb-reward'', ''fb-miss-reward'']
   \<and> map trial_type (sort_values reversing_argsort example_events)
       = [''anticip-reward'', ''anticip-neutral'', ''fb-reward'', ''fb-miss-reward'']"
  using reversing_argsort_ok
    sort_values_shift_commute [OF reversing_argsort_ok, of dummy_scan_time example_events]
  by (simp add: example_events_def sort_values_def reversing_argsort_def shift_onset_def
      mk_event_def dummy_scan_time_def events_dummy_scans_def events_tr_def upt_rec)

section \<open>Evaluating the decoder on the example tables\<close>

lemmas eval_defs =
  practice_rows_def example_row_def trial_window_def process_single_trial_def
  trial_fields_def iloc_def nth_append classify_trial_def lower_def lower_char_def mk_event_def
  sort_values_def reversing_argsort_def shift_onset_def dummy_scan_time_def
  events_dummy_scans_def events_tr_def feedback_duration_def trial_yield_def upt_rec

lemma raising_table_window: "trial_window raising_table = [20, 21, 22]"
  by (simp add: trial_window_def raising_table_def practice_rows_def upt_rec)

lemma raising_table_nonempty: "raising_table \<noteq> []"
  by (simp add: raising_table_def)

lemma raising_trial_20: "process_single_trial raising_table 20 = (Inl TypeError, [])"
  by (simp add: raising_table_def eval_defs)

lemma raising_trial_21:
  "process_single_trial raising_table 21 =
     (Inr [mk_event (Val 20) (Val 4) ''anticip-neutral'' (Num (Val 0)),
           mk_event (Val 26) (Val 2) ''fb-incorr-neutral'' (Num (Val 0))], [])"
  by (simp add: raising_table_def eval_defs)

lemma raising_trial_22:
  "process_single_trial raising_table 22 = (Inr [], [MissingData 22 IndexError])"
  by (simp add: raising_table_def eval_defs)

section \<open>Exceptions of single trials\<close>

lemma yield_succeeded:
  "concat (map (trial_yield td) idxs) =
     concat (map (\<lambda>i. projr (fst (process_single_trial td i))) (filter (trial_succeeds td) idxs))"
  by (induction idxs) (auto simp: trial_yield_def trial_succeeds_def split: sum.splits)

lemma raising_trial_warned:
  assumes "i \<in> set idxs" and "fst (process_single_trial td i) = Inl e"
  shows "TrialError i e \<in> set (concat (map (trial_warnings td) idxs))"
proof -
  from assms(2) have "TrialError i e \<in> set (trial_warnings td i)"
    by (cases "process_single_trial td i") (simp add: trial_warnings_def)
  with assms(1) show ?thesis by auto
qed

lemma index_error_caught:
  "trial_fields td i = Inl IndexError \<Longrightarrow>
     process_single_trial td i = (Inr [], [MissingData i IndexError])"
  by (simp add: process_single_trial_def)

lemma extract_by_succeeded:
  "fst (extract_midt_events argsort td) =
     (if td = [] then Inl TimingFileEmpty
      else if succeeded_events td = [] then Inl NoValidTrials
      else Inr (filter (\<lambda>e. num_ge0 (onset e))
                 (map (shift_onset dummy_scan_time)
                   (sort_values argsort (succeeded_events td)))))"
  by (simp only: extract_fst yield_succeeded succeeded_events_def)

text \<open>
  C10. An exception of one trial is caught at the trial: the loop goes on with the
  next index, so the events it collects are those of the trials that return, in order;
  every trial that raises leaves a warning that names it; the result of the decoder is
  the same for two non-empty tables whose returning trials give the same events; and a
  column that is out of range is answered inside the trial with a warning and no events.
\<close>

theorem trial_exceptions_are_skipped:
  "fst (trials_loop td idxs (es, ws)) =
      es @ concat (map (\<lambda>i. projr (fst (process_single_trial td i)))
                     (filter (trial_succeeds td) idxs))
   \<and> (\<forall>i\<in>set idxs. \<forall>e. fst (process_single_trial td i) = Inl e \<longrightarrow>
         TrialError i e \<in> set (snd (trials_loop td idxs (es, ws))))
   \<and> (td \<noteq> [] \<and> td' \<noteq> [] \<and> succeeded_events td = succeeded_events td' \<longrightarrow>
         fst (extract_midt_events argsort td) = fst (extract_midt_events argsort td'))
   \<and> (trial_fields td i = Inl IndexError \<longrightarrow>
         process_single_trial td i = (Inr [], [MissingData i IndexError]))"
proof (intro conjI)
  show "fst (trials_loop td idxs (es, ws)) =
      es @ concat (map (\<lambda>i. projr (fst (process_single_trial td i)))
                     (filter (trial_succeeds td) idxs))"
    by (simp add: trials_loop_unfold yield_succeeded)
  show "\<forall>i\<in>set idxs. \<forall>e. fst (process_single_trial td i) = Inl e \<longrightarrow>
         TrialError i e \<in> set (snd (trials_loop td idxs (es, ws)))"
    using raising_trial_warned [of _ idxs td] by (simp add: trials_loop_unfold)
  show "td \<noteq> [] \<and> td' \<noteq> [] \<and> succeeded_events td = succeeded_events td' \<longrightarrow>
         fst (extract_midt_events argsort td) = fst (extract_midt_events argsort td')"
    by (simp add: extract_by_succeeded)
  show "trial_fields td i = Inl IndexError \<longrightarrow>
         process_single_trial td i = (Inr [], [MissingData i IndexError])"
    by (simp add: index_error_caught)
qed

theorem trial_exceptions_are_skipped_witness:
  "fst (trials_loop raising_table [20, 21, 22] ([], [])) =
     [mk_event (Val 20) (Val 4) ''anticip-neutral'' (Num (Val 0)),
      mk_event (Val 26) (Val 2) ''fb-incorr-neutral'' (Num (Val 0))]
   \<and> TrialError 20 TypeError \<in> set (snd (trials_loop raising_table [20, 21, 22] ([], [])))
   \<and> process_single_trial raising_table 22 = (Inr [], [MissingData 22 IndexError])
   \<and> fst (extract_midt_events reversing_argsort raising_table) =
     Inr [mk_event (Val 12) (Val 4) ''anticip-neutral'' (Num (Val 0)),
          mk_event (Val 18) (Val 2) ''fb-incorr-neutral'' (Num (Val 0))]"
  using trial_exceptions_are_skipped
    [where td = raising_table and idxs = "[20, 21, 22]" and es = "[]" and ws = "[]"
       and td' = raising_table and i = 22 and argsort = reversing_argsort]
  by (simp add: raising_trial_20 raising_trial_21 raising_trial_22 trial_succeeds_def
       raising_table_nonempty extract_fst raising_table_window trial_yield_def sort_values_def
       reversing_argsort_def upt_rec shift_onset_def mk_event_def dummy_scan_time_def
       events_dummy_scans_def events_tr_def)

section \<open>The two failures of the decoder\<close>

text \<open>
  C6. The decoder fails with the empty-file error exactly when the table has no rows;
  it fails with the no-valid-trials error exactly when the table has rows and no trial
  of the window adds an event; it returns events exactly when the table has rows and
  some trial of the window adds an event. Nothing else can come out of it.
\<close>

theorem extract_error_cases:
  "(fst (extract_midt_events argsort td) = Inl TimingFileEmpty \<longleftrightarrow> td = [])
   \<and> (fst (extract_midt_events argsort td) = Inl NoValidTrials \<longleftrightarrow>
        td \<noteq> [] \<and> list_all (\<lambda>i. trial_yield td i = []) (trial_window td))
   \<and> ((\<exists>evs. fst (extract_midt_events argsort td) = Inr evs) \<longleftrightarrow>
        td \<noteq> [] \<and> list_ex (\<lambda>i. trial_yield td i \<noteq> []) (trial_window td))"
  by (auto simp: extract_fst list_all_iff list_ex_iff)

theorem extract_error_cases_witness:
  "fst (extract_midt_events reversing_argsort []) = Inl TimingFileEmpty
   \<and> fst (extract_midt_events reversing_argsort unrecognized_table) = Inl NoValidTrials
   \<and> fst (extract_midt_events reversing_argsort practice_rows) = Inl NoValidTrials
   \<and> (\<exists>evs. fst (extract_midt_events reversing_argsort mixed_case_table) = Inr evs)"
  using extract_error_cases [of reversing_argsort "[]"]
    extract_error_cases [of reversing_argsort unrecognized_table]
    extract_error_cases [of reversing_argsort practice_rows]
    extract_error_cases [of reversing_argsort mixed_case_table]
  by (simp add: unrecognized_table_def mixed_case_table_def practice_rows_def example_row_def
       trial_window_def process_single_trial_def trial_fields_def iloc_def nth_append
       classify_trial_def lower_def lower_char_def mk_event_def trial_yield_def upt_rec)

section \<open>Onsets, durations and labels of the decoded events\<close>

lemma classify_trial_labels:
  "e \<in> set (classify_trial cue_type acc t0 t1 t2) \<Longrightarrow> trial_type e \<in> set midt_labels"
  by (auto simp: classify_trial_def mk_event_def midt_labels_def Let_def split: if_splits)

lemma trial_yield_labels:
  "e \<in> set (trial_yield td i) \<Longrightarrow> trial_type e \<in> set midt_labels"
  by (auto simp: trial_yield_def process_single_trial_def classify_trial_labels
       split: sum.splits exn.splits prod.splits)

text \<open>What does hold of every decoded event: its onset is not negative and its label
  is one of the six.\<close>

lemma decoded_onset_and_label:
  assumes "library_argsort argsort"
    and "fst (extract_midt_events argsort td) = Inr evs" and "e \<in> set evs"
  shows "num_ge0 (onset e) \<and> trial_type e \<in> set midt_labels"
proof -
  let ?raw = "concat (map (trial_yield td) (trial_window td))"
  from assms(2) have evs: "evs = filter (\<lambda>e. num_ge0 (onset e))
      (map (shift_onset dummy_scan_time) (sort_values argsort ?raw))"
    by (simp add: extract_fst split: if_splits)
  with assms(3) have ge: "num_ge0 (onset e)" by simp
  from evs assms(3) obtain r where r: "r \<in> set ?raw" and e: "e = shift_onset dummy_scan_time r"
    by (auto simp: set_sort_values [OF assms(1)])
  from r have "trial_type r \<in> set midt_labels"
    by (auto dest: trial_yield_labels)
  with e ge show ?thesis by (simp add: shift_onset_def)
qed

text \<open>
  C1. The decoder checks the onsets only. On a table whose reward trial has its target
  timestamp one second before its cue timestamp, and whose neutral trial lacks the
  target timestamp, it returns an anticipation event of duration minus one second and
  one whose duration is the missing-value sentinel.
\<close>

theorem negative_duration_is_emitted:
  assumes "library_argsort argsort"
  shows "fst (extract_midt_events argsort early_target_table) =
     Inr [mk_event (Val 12) (Val (- 1)) ''anticip-reward'' (Num (Val 1)),
          mk_event (Val 17) (Val 2) ''fb-reward'' (Num (Val 1)),
          mk_event (Val 22) NaN ''anticip-neutral'' (Num (Val 0))]
   \<and> \<not> num_ge0 (Val (- 1)) \<and> \<not> num_ge0 NaN"
proof -
  let ?raw = "[mk_event (Val 20) (Val (- 1)) ''anticip-reward'' (Num (Val 1)),
               mk_event (Val 25) (Val 2) ''fb-reward'' (Num (Val 1)),
               mk_event (Val 30) NaN ''anticip-neutral'' (Num (Val 0)),
               mk_event NaN (Val 2) ''fb-incorr-neutral'' (Num (Val 0))]"
  have raw: "concat (map (trial_yield early_target_table) (trial_window early_target_table))
      = ?raw"
    by (simp add: early_target_table_def practice_rows_def example_row_def trial_window_def
         process_single_trial_def trial_fields_def iloc_def nth_append classify_trial_def
         lower_def lower_char_def feedback_duration_def trial_yield_def upt_rec)
  have sorted: "sort_values argsort ?raw = ?raw"
    using assms by (rule sort_values_sorted_input) (simp add: mk_event_def onset_lt_def)
  have ne: "early_target_table \<noteq> []"
    by (simp add: early_target_table_def)
  show ?thesis
    unfolding extract_fst raw sorted
    by (simp add: ne mk_event_def shift_onset_def dummy_scan_time_def events_dummy_scans_def
         events_tr_def)
qed

theorem negative_duration_is_emitted_witness:
  "library_argsort reversing_argsort
   \<and> fst (extract_midt_events reversing_argsort early_target_table) =
     Inr [mk_event (Val 12) (Val (- 1)) ''anticip-reward'' (Num (Val 1)),
          mk_event (Val 17) (Val 2) ''fb-reward'' (Num (Val 1)),
          mk_event (Val 22) NaN ''anticip-neutral'' (Num (Val 0))]"
  using reversing_argsort_ok negative_duration_is_emitted [OF reversing_argsort_ok]
  by simp

section \<open>Classification of the cue type\<close>

text \<open>
  C2, as stated, fails: a cue type that holds the word reward gives no events, and a
  cue type that holds the neutral keyword after the reward keyword of the code gives
  reward events.
\<close>

theorem reward_keyword_counterexample:
  "str_in ''reward'' (lower ''reward.bmp'')
   \<and> process_single_trial reward_word_table 20 = (Inr [], [])
   \<and> str_in ''neutral'' (lower ''smile_neutral.bmp'')
   \<and> map trial_type (projr (fst (process_single_trial reward_word_table 21))) =
        [''anticip-reward'', ''fb-reward'']"
  by (simp add: reward_word_table_def eval_defs)

text \<open>
  C2, amended. For a trial whose five fields can be read, the lower-cased cue type is
  tested for the keyword smile first and for the keyword neutral second. With smile in
  it the trial gives the two reward events; with neutral and without smile, the two
  neutral events; with neither, no events, no exception and no warning, and the loop
  goes on unchanged. Two cue types that differ only in the case of their letters are
  treated alike.
\<close>

theorem cue_type_classification:
  assumes "trial_fields td i = Inr (cue_type, acc, cue_onset, cue_offset, feedback_onset)"
  shows "(cue_has ''smile'' cue_type \<longrightarrow>
            process_single_trial td i =
              (Inr [mk_event cue_onset (num_sub cue_offset cue_onset) ''anticip-reward'' acc,
                    mk_event feedback_onset (Val 2)
                      (if acc = Num (Val 1) then ''fb-reward'' else ''fb-miss-reward'') acc], []))
       \<and> (\<not> cue_has ''smile'' cue_type \<and> cue_has ''neutral'' cue_type \<longrightarrow>
            process_single_trial td i =
              (Inr [mk_event cue_onset (num_sub cue_offset cue_onset) ''anticip-neutral'' acc,
                    mk_event feedback_onset (Val 2)
                      (if acc = Num (Val 1) then ''fb-corr-neutral'' else ''fb-incorr-neutral'')
                      acc], []))
       \<and> (\<not> cue_has ''smile'' cue_type \<and> \<not> cue_has ''neutral'' cue_type \<longrightarrow>
            process_single_trial td i = (Inr [], []) \<and> trials_loop td [i] (es, ws) = (es, ws))
       \<and> (lower s = lower s' \<longrightarrow> cue_has kw (Str s) = cue_has kw (Str s'))"
  using assms
  by (simp add: process_single_trial_def classify_trial_def feedback_duration_def)

theorem cue_type_classification_witness:
  "process_single_trial mixed_case_table 20 =
      (Inr [mk_event (Val 10) (Val 4) ''anticip-reward'' (Num (Val 0)),
            mk_event (Val 16) (Val 2) ''fb-miss-reward'' (Num (Val 0))], [])
   \<and> process_single_trial mixed_case_table 21 =
      (Inr [mk_event (Val 20) (Val 4) ''anticip-neutral'' (Num (Val 1)),
            mk_event (Val 26) (Val 2) ''fb-corr-neutral'' (Num (Val 1))], [])
   \<and> process_single_trial mixed_case_table 22 = (Inr [], [])
   \<and> cue_has ''smile'' (Str ''SMILE.BMP'') = cue_has ''smile'' (Str ''smile.bmp'')"
proof -
  have f20: "trial_fields mixed_case_table 20 =
      Inr (Str ''SMILE.BMP'', Num (Val 0), Val 10, Val 14, Val 16)"
    by (simp add: mixed_case_table_def eval_defs)
  have f21: "trial_fields mixed_case_table 21 =
      Inr (Str ''Neutral.bmp'', Num (Val 1), Val 20, Val 24, Val 26)"
    by (simp add: mixed_case_table_def eval_defs)
  have f22: "trial_fields mixed_case_table 22 =
      Inr (Str ''circle.bmp'', Num (Val 1), Val 30, Val 34, Val 36)"
    by (simp add: mixed_case_table_def eval_defs)
  show ?thesis
    using cue_type_classification [OF f20, of "[]" "[]" "''SMILE.BMP''" "''smile.bmp''" "''smile''"]
      cue_type_classification [OF f21, of "[]" "[]" "''a''" "''a''" "''smile''"]
      cue_type_classification [OF f22, of "[]" "[]" "''a''" "''a''" "''smile''"]
    by (simp add: lower_def lower_char_def)
qed

section \<open>The dummy-scan shift and the configuration\<close>

lemma timing_ignores_config:
  "extract_timing_for_session argsort c1 ses files =
     extract_timing_for_session argsort c2 ses files"
  by (simp add: extract_timing_for_session_def)

text \<open>
  C3. The shift of the decoder is its own constant of eight seconds. Under a
  configuration with no dummy scans, whose product of dummy scans and repetition time is
  zero, the anticipation event at five seconds is shifted to minus three seconds and
  dropped, and the feedback event at eleven seconds is written with onset three.
\<close>

theorem shift_ignores_configuration:
  assumes "library_argsort argsort"
  shows "real (dummy_scans other_config) * tr other_config = 0
   \<and> extract_timing_for_session argsort other_config ''1'' [early_cue_table] =
       (True, [[mk_event (Val 3) (Val 2) ''fb-reward'' (Num (Val 1))]])"
proof -
  let ?raw = "[mk_event (Val 5) (Val 4) ''anticip-reward'' (Num (Val 1)),
               mk_event (Val 11) (Val 2) ''fb-reward'' (Num (Val 1))]"
  have raw: "concat (map (trial_yield early_cue_table) (trial_window early_cue_table)) = ?raw"
    by (simp add: early_cue_table_def practice_rows_def example_row_def trial_window_def
         process_single_trial_def trial_fields_def iloc_def nth_append classify_trial_def
         lower_def lower_char_def feedback_duration_def trial_yield_def upt_rec)
  have sorted: "sort_values argsort ?raw = ?raw"
    using assms by (rule sort_values_sorted_input) (simp add: mk_event_def onset_lt_def)
  have ne: "early_cue_table \<noteq> []"
    by (simp add: early_cue_table_def)
  have decoded: "fst (extract_midt_events argsort early_cue_table) =
      Inr [mk_event (Val 3) (Val 2) ''fb-reward'' (Num (Val 1))]"
    unfolding extract_fst raw sorted
    by (simp add: ne mk_event_def shift_onset_def dummy_scan_time_def events_dummy_scans_def
         events_tr_def)
  show ?thesis
    by (simp add: extract_timing_for_session_def decoded other_config_def)
qed

theorem shift_ignores_configuration_witness:
  "library_argsort reversing_argsort
   \<and> extract_timing_for_session reversing_argsort other_config ''1'' [early_cue_table] =
       (True, [[mk_event (Val 3) (Val 2) ''fb-reward'' (Num (Val 1))]])"
  using reversing_argsort_ok shift_ignores_configuration [OF reversing_argsort_ok]
  by simp

section \<open>Exclusion list\<close>

lemma apply_exclusion_subset: "set (apply_exclusion ses valid ex) \<subseteq> set valid"
  by (induction ses valid ex rule: apply_exclusion.induct)
    (auto dest: set_remove1_subset [THEN subsetD])

lemma apply_exclusion_distinct: "distinct valid \<Longrightarrow> distinct (apply_exclusion ses valid ex)"
  by (induction ses valid ex rule: apply_exclusion.induct) auto

lemma apply_exclusion_removes:
  "excludes ses s ex \<Longrightarrow> distinct valid \<Longrightarrow> s \<notin> set (apply_exclusion ses valid ex)"
  by (induction ses valid ex rule: apply_exclusion.induct) auto

lemma apply_exclusion_keeps:
  "\<not> excludes ses s ex \<Longrightarrow> s \<in> set valid \<Longrightarrow> s \<in> set (apply_exclusion ses valid ex)"
  by (induction ses valid ex rule: apply_exclusion.induct) auto

lemma foldl_exclusion_absent:
  "s \<notin> set valid \<Longrightarrow> s \<notin> set (foldl (apply_exclusion ses) valid exs)"
proof (induction exs arbitrary: valid)
  case Nil
  then show ?case by simp
next
  case (Cons ex exs)
  from Cons.prems apply_exclusion_subset [of ses valid ex]
  have "s \<notin> set (apply_exclusion ses valid ex)" by blast
  then show ?case by (simp add: Cons.IH)
qed

lemma foldl_exclusion_removes:
  "ex \<in> set exs \<Longrightarrow> excludes ses s ex \<Longrightarrow> distinct valid \<Longrightarrow>
     s \<notin> set (foldl (apply_exclusion ses) valid exs)"
proof (induction exs arbitrary: valid)
  case Nil
  then show ?case by simp
next
  case (Cons a exs)
  show ?case
  proof (cases "ex = a")
    case True
    with Cons.prems have "s \<notin> set (apply_exclusion ses valid a)"
      by (simp add: apply_exclusion_removes)
    then show ?thesis by (simp add: foldl_exclusion_absent)
  next
    case False
    with Cons.prems have "ex \<in> set exs" by simp
    moreover have "distinct (apply_exclusion ses valid a)"
      using Cons.prems by (simp add: apply_exclusion_distinct)
    ultimately show ?thesis using Cons.IH Cons.prems(2) by simp
  qed
qed

lemma foldl_exclusion_keeps:
  "s \<in> set valid \<Longrightarrow> list_all (\<lambda>ex. \<not> excludes ses s ex) exs \<Longrightarrow>
     s \<in> set (foldl (apply_exclusion ses) valid exs)"
  by (induction exs arbitrary: valid) (simp_all add: apply_exclusion_keeps)

text \<open>
  What holds of \<^verbatim>\<open>get_valid_subjects_for_session\<close> on a configuration whose subject
  list has no repeated identifier: an entry for subject \<^verbatim>\<open>s\<close>
  tagged \<^verbatim>\<open>all\<close> removes \<^verbatim>\<open>s\<close> from the eligible list of every session; an entry tagged
  with the session \<^verbatim>\<open>ses\<close> removes \<^verbatim>\<open>s\<close> from the eligible list of \<^verbatim>\<open>ses\<close>; that
  entry does not affect any other session; and a listed subject whom no entry excludes
  from a session is eligible in that session.
\<close>

lemma exclusion_semantics:
  assumes "distinct (subject_ids cfg)"
  shows "(FStr s # reason # FStr ''all'' # extra \<in> set (excluded_subjects cfg) \<longrightarrow>
            s \<notin> set (get_valid_subjects_for_session cfg ses))
       \<and> (FStr s # reason # FStr (''ses-'' @ ses) # extra \<in> set (excluded_subjects cfg) \<longrightarrow>
            s \<notin> set (get_valid_subjects_for_session cfg ses))
       \<and> (other \<noteq> ses \<longrightarrow>
            \<not> excludes other s (FStr s # reason # FStr (''ses-'' @ ses) # extra))
       \<and> (s \<in> set (subject_ids cfg)
            \<and> list_all (\<lambda>ex. \<not> excludes other s ex) (excluded_subjects cfg) \<longrightarrow>
            s \<in> set (get_valid_subjects_for_session cfg other))"
proof (intro conjI impI)
  assume "FStr s # reason # FStr ''all'' # extra \<in> set (excluded_subjects cfg)"
  then show "s \<notin> set (get_valid_subjects_for_session cfg ses)"
    unfolding get_valid_subjects_for_session_def
    by (rule foldl_exclusion_removes [OF _ _ assms]) simp
next
  assume "FStr s # reason # FStr (''ses-'' @ ses) # extra \<in> set (excluded_subjects cfg)"
  then show "s \<notin> set (get_valid_subjects_for_session cfg ses)"
    unfolding get_valid_subjects_for_session_def
    by (rule foldl_exclusion_removes [OF _ _ assms]) simp
next
  assume "other \<noteq> ses"
  then show "\<not> excludes other s (FStr s # reason # FStr (''ses-'' @ ses) # extra)"
    by simp
next
  assume "s \<in> set (subject_ids cfg)
            \<and> list_all (\<lambda>ex. \<not> excludes other s ex) (excluded_subjects cfg)"
  then show "s \<in> set (get_valid_subjects_for_session cfg other)"
    unfolding get_valid_subjects_for_session_def
    by (simp add: foldl_exclusion_keeps)
qed

lemma exclusion_semantics_example:
  "distinct (subject_ids two_session_config)
   \<and> ''sub-001'' \<notin> set (get_valid_subjects_for_session two_session_config ''1'')
   \<and> ''sub-001'' \<notin> set (get_valid_subjects_for_session two_session_config ''2'')
   \<and> ''sub-002'' \<notin> set (get_valid_subjects_for_session two_session_config ''1'')
   \<and> ''sub-002'' \<in> set (get_valid_subjects_for_session two_session_config ''2'')"
proof -
  have d: "distinct (subject_ids two_session_config)"
    by (simp add: two_session_config_def)
  show ?thesis
    using d
      exclusion_semantics
        [OF d, of "''sub-001''" "FStr ''Motion artifacts''" "[]" "''1''" "''2''"]
      exclusion_semantics
        [OF d, of "''sub-001''" "FStr ''Motion artifacts''" "[]" "''2''" "''1''"]
      exclusion_semantics
        [OF d, of "''sub-002''" "FStr ''Timing file issues''" "[]" "''1''" "''2''"]
    by (simp add: two_session_config_def)
qed

text \<open>
  C8. The code departs from the claim in two runs. With two sessions, the second subject
  excluded from session 1 only, and the motion step run: session 1 narrows the subject
  list of the run's configuration, so session 2 is processed without the second subject,
  who is eligible there on the configuration as it was loaded. And with a subject list
  that names a subject twice, an entry tagged \<^verbatim>\<open>all\<close> for that subject takes out one
  occurrence and leaves the subject eligible.
\<close>

theorem exclusion_leaks_across_sessions:
  "run_complete_pipeline_sessions (\<lambda>ses. True) two_session_config =
      [(''1'', [''sub-003'']), (''2'', [''sub-003''])]
   \<and> get_valid_subjects_for_session two_session_config ''2'' = [''sub-002'', ''sub-003'']
   \<and> get_valid_subjects_for_session repeated_id_config ''1'' = [''sub-002'', ''sub-001'']"
  by (simp add: run_complete_pipeline_sessions_def config_after_session_def session_config_def
       get_valid_subjects_for_session_def two_session_config_def repeated_id_config_def
       Let_def)

section \<open>The ledger of the per-subject analysis\<close>

lemma process_single_subject_ok:
  "process_single_subject first_level s = analysis_ok first_level s"
  by (cases "first_level s") (simp_all add: process_single_subject_def analysis_ok_def)

lemma count_sequential_eq:
  "count_sequential first_level subjects sm =
     sm\<lparr>successful_subjects :=
          successful_subjects sm + length (filter (analysis_ok first_level) subjects),
        failed_subjects :=
          failed_subjects sm @ filter (\<lambda>s. \<not> analysis_ok first_level s) subjects\<rparr>"
  unfolding count_sequential_def
  by (induction subjects arbitrary: sm) (simp_all add: process_single_subject_ok)

lemma safe_parallel_wrapper:
  "safe_parallel_processing pool (\<lambda>s. Returns (f s)) items n_jobs = map (\<lambda>s. Some (f s)) items"
  by (simp add: safe_parallel_processing_def sequential_results_def)

lemma enumerate_map_nth:
  "enumerate 0 (map g xs) = map (\<lambda>i. (i, g (xs ! i))) [0..<length xs]"
  by (rule nth_equalityI) (simp_all add: nth_enumerate_eq)

lemma count_results_eq:
  "count_results subjects (map (\<lambda>s. Some (process_single_subject first_level s)) subjects) sm =
     count_sequential first_level subjects sm"
proof -
  let ?F = "\<lambda>sm subject_id.
              if process_single_subject first_level subject_id
              then sm\<lparr>successful_subjects := successful_subjects sm + 1\<rparr>
              else sm\<lparr>failed_subjects := failed_subjects sm @ [subject_id]\<rparr>"
  have "count_results subjects
          (map (\<lambda>s. Some (process_single_subject first_level s)) subjects) sm
      = foldl ?F sm (map (\<lambda>i. subjects ! i) [0..<length subjects])"
    by (simp add: count_results_def enumerate_map_nth foldl_map)
  also have "\<dots> = foldl ?F sm subjects"
    by (simp add: map_nth)
  finally show ?thesis by (simp add: count_sequential_def)
qed

lemma first_level_step_eq:
  "first_level_step pool first_level subjects n_jobs sm =
     sm\<lparr>successful_subjects :=
          successful_subjects sm + length (filter (analysis_ok first_level) subjects),
        failed_subjects :=
          failed_subjects sm @ filter (\<lambda>s. \<not> analysis_ok first_level s) subjects\<rparr>"
  by (simp add: first_level_step_def safe_parallel_wrapper count_results_eq count_sequential_eq)

text \<open>
  C5. When a session reaches its per-subject analysis, then for every outcome of the
  single analyses (returning or raising), every number of jobs and every behaviour of
  the worker pool: the succeeded count is the number of subjects whose own analysis
  returned true, the failed list holds exactly the other subjects, in order, and the
  two add up to the total.
\<close>

theorem ledger_accounts_for_every_subject:
  assumes "run_first_level cfg"
    and "run_timing_extraction cfg \<longrightarrow> timing_success"
    and "run_motion_extraction cfg \<longrightarrow> motion_success"
  shows "successful_subjects
           (process_single_session cfg pool timing_success motion_success first_level ses
              subjects n_jobs)
         = length (filter (analysis_ok first_level) subjects)
       \<and> failed_subjects
           (process_single_session cfg pool timing_success motion_success first_level ses
              subjects n_jobs)
         = filter (\<lambda>s. \<not> analysis_ok first_level s) subjects
       \<and> total_subjects
           (process_single_session cfg pool timing_success motion_success first_level ses
              subjects n_jobs)
         = length subjects
       \<and> successful_subjects
           (process_single_session cfg pool timing_success motion_success first_level ses
              subjects n_jobs)
         + length (failed_subjects
           (process_single_session cfg pool timing_success motion_success first_level ses
              subjects n_jobs))
         = total_subjects
           (process_single_session cfg pool timing_success motion_success first_level ses
              subjects n_jobs)"
proof -
  have "process_single_session cfg pool timing_success motion_success first_level ses
          subjects n_jobs
      = \<lparr>session_name = ses, total_subjects = length subjects,
         successful_subjects = length (filter (analysis_ok first_level) subjects),
         failed_subjects = filter (\<lambda>s. \<not> analysis_ok first_level s) subjects\<rparr>"
    using assms by (auto simp: process_single_session_def first_level_step_eq Let_def)
  then show ?thesis
    by (simp add: sum_length_filter_compl)
qed

theorem ledger_accounts_for_every_subject_witness:
  "failed_subjects (process_single_session other_config PoolRuns True True missing_file_run
       ''1'' [''sub-001'', ''sub-002'', ''sub-003''] 3) = [''sub-002'']
   \<and> successful_subjects (process_single_session other_config PoolRuns True True
       missing_file_run ''1'' [''sub-001'', ''sub-002'', ''sub-003''] 3) = 2
   \<and> failed_subjects (process_single_session other_config NotInstalled True True
       missing_file_run ''1'' [''sub-001'', ''sub-002'', ''sub-003''] 1) = [''sub-002'']
   \<and> successful_subjects (process_single_session other_config NotInstalled True True
       missing_file_run ''1'' [''sub-001'', ''sub-002'', ''sub-003''] 1) = 2"
  using ledger_accounts_for_every_subject
      [of other_config True True PoolRuns missing_file_run "''1''"
          "[''sub-001'', ''sub-002'', ''sub-003'']" 3]
    ledger_accounts_for_every_subject
      [of other_config True True NotInstalled missing_file_run "''1''"
          "[''sub-001'', ''sub-002'', ''sub-003'']" 1]
  by (simp add: other_config_def analysis_ok_def)

section \<open>Resolution of the signed-difference contrasts\<close>

lemma index_present:
  "x \<in> set xs \<Longrightarrow> \<exists>i. index xs x = Inr i \<and> i < length xs \<and> xs ! i = x"
  by (induction xs) auto

lemma update_pair_eq:
  assumes "i < m" "j < m" "i \<noteq> j"
  shows "(replicate m (0::real))[i := 1, j := - 1] =
           map (\<lambda>k. if i = k then 1 else if j = k then - 1 else 0) [0..<m]"
  using assms by (intro nth_equalityI) (auto simp: nth_list_update)

lemma signed_pair_at:
  "index cols p = Inr i \<Longrightarrow> index cols n = Inr j \<Longrightarrow> p \<in> set cols \<Longrightarrow> n \<in> set cols \<Longrightarrow>
   signed_pair cols p n = Resolved (ByVector ((replicate (length cols) 0)[i := 1, j := - 1]))"
  by (simp add: signed_pair_def)

lemma name_lookup_vector_at:
  "index cols p = Inr i \<Longrightarrow> index cols n = Inr j \<Longrightarrow>
   name_lookup_vector cols p n =
      map (\<lambda>k. if i = k then 1 else if j = k then - 1 else 0) [0..<length cols]"
  by (simp add: name_lookup_vector_def)

lemma signed_pair_present:
  assumes "p \<in> set cols" "n \<in> set cols" "p \<noteq> n"
  shows "signed_pair cols p n = Resolved (ByVector (name_lookup_vector cols p n))"
proof -
  from index_present [OF assms(1)]
  obtain i where i: "index cols p = Inr i" "i < length cols" "cols ! i = p"
    by (elim exE conjE)
  from index_present [OF assms(2)]
  obtain j where j: "index cols n = Inr j" "j < length cols" "cols ! j = n"
    by (elim exE conjE)
  have ij: "i \<noteq> j"
  proof
    assume "i = j"
    with i(3) j(3) have "p = n" by simp
    with assms(3) show False by simp
  qed
  show ?thesis
    by (simp only: signed_pair_at [OF i(1) j(1) assms(1,2)]
          name_lookup_vector_at [OF i(1) j(1)] update_pair_eq [OF i(2) j(2) ij])
qed

lemma signed_pair_absent:
  assumes "\<not> (p \<in> set cols \<and> n \<in> set cols)"
  shows "signed_pair cols p n = Skipped ''missing conditions''"
  unfolding signed_pair_def using assms by (rule if_not_P)

lemma catalogue_pairs:
  assumes "(name, w) \<in> set define_midt_contrasts" "paired_conditions w = Some (p, n)"
  shows "p \<noteq> n \<and>
    (if name \<in> set computed_pairs
     then resolve_contrast name design = signed_pair (condition_columns design) p n
     else resolve_contrast name design = Skipped ''complex contrast'')"
  using assms unfolding define_midt_contrasts_def
  apply (simp only: list.set insert_iff empty_iff prod.inject simp_thms)
  apply (elim disjE conjE)
  apply ((clarsimp simp: paired_conditions_def midt_conditions_def;
          simp add: computed_pairs_def resolve_contrast_def)+)
  done



text \<open>
  C4, amended. For a signed-difference contrast of the catalogue, with the two conditions
  that its weight list refers to: if it is one of the four that the resolver computes and
  both conditions are among the realized condition columns, the resolution is the vector
  over those columns with plus one at the position of the first condition and minus one
  at the position of the second, both found by name, and zero elsewhere; if it is one of
  the four and a condition is absent, it is skipped; each of the four reversed contrasts
  is skipped whatever the design.
\<close>

theorem paired_contrast_resolution:
  assumes "(name, w) \<in> set define_midt_contrasts" and "paired_conditions w = Some (p, n)"
  shows "(name \<in> set computed_pairs \<and> p \<in> set (condition_columns design)
            \<and> n \<in> set (condition_columns design) \<longrightarrow>
          resolve_contrast name design =
            Resolved (ByVector (name_lookup_vector (condition_columns design) p n)))
       \<and> (name \<in> set computed_pairs \<and> \<not> (p \<in> set (condition_columns design)
            \<and> n \<in> set (condition_columns design)) \<longrightarrow>
          resolve_contrast name design = Skipped ''missing conditions'')
       \<and> (name \<notin> set computed_pairs \<longrightarrow>
          resolve_contrast name design = Skipped ''complex contrast'')"
proof -
  let ?cols = "condition_columns design"
  from catalogue_pairs [OF assms, of design]
  have ne: "p \<noteq> n"
    and computed: "name \<in> set computed_pairs \<Longrightarrow>
           resolve_contrast name design = signed_pair ?cols p n"
    and other: "name \<notin> set computed_pairs \<Longrightarrow>
           resolve_contrast name design = Skipped ''complex contrast''"
    by (simp_all split: if_splits)
  show ?thesis
  proof (intro conjI impI)
    assume "name \<in> set computed_pairs \<and> p \<in> set ?cols \<and> n \<in> set ?cols"
    with ne computed show "resolve_contrast name design =
        Resolved (ByVector (name_lookup_vector ?cols p n))"
      by (simp add: signed_pair_present)
  next
    assume "name \<in> set computed_pairs \<and> \<not> (p \<in> set ?cols \<and> n \<in> set ?cols)"
    with computed show "resolve_contrast name design = Skipped ''missing conditions''"
      by (simp add: signed_pair_absent)
  next
    assume "name \<notin> set computed_pairs"
    with other show "resolve_contrast name design = Skipped ''complex contrast''"
      by simp
  qed
qed




text \<open>
  C4, as stated, fails: the reversed anticipation contrast is a signed-difference
  contrast of the catalogue, both its conditions are columns of the realized design, and
  it is skipped.
\<close>

theorem reversed_contrast_counterexample:
  "(''anticip-neutral-vs-reward'', [- 1, 1, 0, 0, 0, 0]) \<in> set define_midt_contrasts
   \<and> ''anticip-neutral'' \<in> set (condition_columns realized_design)
   \<and> ''anticip-reward'' \<in> set (condition_columns realized_design)
   \<and> resolve_contrast ''anticip-neutral-vs-reward'' realized_design = Skipped ''complex contrast''"
  by (simp add: define_midt_contrasts_def condition_columns_def realized_design_def resolve_contrast_def)



lemma realized_condition_columns:
  "condition_columns realized_design =
     [''anticip-neutral'', ''anticip-reward'', ''fb-corr-neutral'', ''fb-reward'', ''trans_x'']"
  by (simp add: condition_columns_def realized_design_def)

lemma realized_vector:
  "name_lookup_vector
     [''anticip-neutral'', ''anticip-reward'', ''fb-corr-neutral'', ''fb-reward'', ''trans_x'']
     ''anticip-reward'' ''anticip-neutral'' = [- 1, 1, 0, 0, 0]"
  by (simp add: name_lookup_vector_def upt_conv_Cons)

theorem paired_contrast_resolution_witness:
  "resolve_contrast ''anticip-reward-vs-neutral'' realized_design =
      Resolved (ByVector [- 1, 1, 0, 0, 0])
   \<and> resolve_contrast ''feedback-reward-success-vs-failure'' realized_design =
      Skipped ''missing conditions''
   \<and> resolve_contrast ''feedback-reward-failure-vs-success'' realized_design =
      Skipped ''complex contrast''"
proof -
  have m1: "(''anticip-reward-vs-neutral'', [1, - 1, 0, 0, 0, 0]) \<in> set define_midt_contrasts"
   and m2: "(''feedback-reward-success-vs-failure'', [0, 0, 1, - 1, 0, 0]) \<in> set define_midt_contrasts"
   and m3: "(''feedback-reward-failure-vs-success'', [0, 0, - 1, 1, 0, 0]) \<in> set define_midt_contrasts"
    by (simp_all add: define_midt_contrasts_def)
  have p1: "paired_conditions [1, - 1, 0, 0, 0, 0] = Some (''anticip-reward'', ''anticip-neutral'')"
   and p2: "paired_conditions [0, 0, 1, - 1, 0, 0] = Some (''fb-reward'', ''fb-miss-reward'')"
   and p3: "paired_conditions [0, 0, - 1, 1, 0, 0] = Some (''fb-miss-reward'', ''fb-reward'')"
    by (simp_all add: paired_conditions_def midt_conditions_def)
  show ?thesis
    using paired_contrast_resolution [OF m1 p1, of realized_design] paired_contrast_resolution [OF m2 p2, of realized_design]
      paired_contrast_resolution [OF m3 p3, of realized_design]
    by (simp add: computed_pairs_def realized_condition_columns realized_vector)
qed

section \<open>Motion parameters that are not available\<close>



















end
